theory Spec2Isabelle
  imports Main
begin

section \<open>JavaScript values of the form\<close>

text \<open>
  A form field holds \<open>undefined\<close>, \<open>null\<close> or a value. The rules of the source
  tell the first two apart (\<open>value === null || value === undefined\<close>, \<open>!value\<close>,
  \<open>nullable()\<close>, \<open>required()\<close>), so the model keeps both.
\<close>

datatype 'a js = Undefined | Null | Val 'a

text \<open>
  The browser's \<open>File\<close>, as far as the rules read it: \<open>size\<close> in bytes and the
  MIME string \<open>type\<close>.
\<close>

record jsfile =
  file_size :: nat
  file_type :: string

text \<open>
  An uploaded item is a \<open>File\<close>, a string (the reference of a file already
  stored) or any other object. For the latter only its \<open>size\<close> and \<open>type\<close>
  properties can be read by a rule; either may be missing (\<open>undefined\<close>).
  A \<open>null\<close> or \<open>undefined\<close> list element is outside the model.
\<close>

datatype upload = File jsfile | Str string | Other "nat option" "string option"

fun instanceof_File :: "upload \<Rightarrow> bool" where
  "instanceof_File (File f) = True"
| "instanceof_File (Str s) = False"
| "instanceof_File (Other sz ty) = False"

fun typeof_string :: "upload \<Rightarrow> bool" where
  "typeof_string (File f) = False"
| "typeof_string (Str s) = True"
| "typeof_string (Other sz ty) = False"

text \<open>\<open>item.size\<close> and \<open>item.type\<close>; a string has neither property.\<close>

fun prop_size :: "upload \<Rightarrow> nat option" where
  "prop_size (File f) = Some (file_size f)"
| "prop_size (Str s) = None"
| "prop_size (Other sz ty) = sz"

fun prop_type :: "upload \<Rightarrow> string option" where
  "prop_type (File f) = Some (file_type f)"
| "prop_type (Str s) = None"
| "prop_type (Other sz ty) = ty"

text \<open>\<open>x <= n\<close> is false when \<open>x\<close> is \<open>undefined\<close>; so is \<open>xs.includes(undefined)\<close>
  for a list of strings.\<close>

fun js_le :: "nat option \<Rightarrow> nat \<Rightarrow> bool" where
  "js_le None n = False"
| "js_le (Some m) n = (m \<le> n)"

fun js_includes :: "string list \<Rightarrow> string option \<Rightarrow> bool" where
  "js_includes xs None = False"
| "js_includes xs (Some t) = (t \<in> set xs)"

text \<open>A JavaScript \<open>Date\<close>: milliseconds since the epoch, or the invalid date.\<close>

datatype jsdate = Date int | InvalidDate

text \<open>A JavaScript number as far as an age needs it: an integer or \<open>NaN\<close>.
  Every comparison with \<open>NaN\<close> is false.\<close>

datatype jsnum = Num int | NaN

fun js_lt :: "jsnum \<Rightarrow> int \<Rightarrow> bool" where
  "js_lt (Num a) b = (a < b)"
| "js_lt NaN b = False"

fun js_ge :: "jsnum \<Rightarrow> int \<Rightarrow> bool" where
  "js_ge (Num a) b = (a \<ge> b)"
| "js_ge NaN b = False"

text \<open>Truthiness of the values the rules test with \<open>!x\<close> and \<open>||\<close>: the empty
  string is falsy, every array and every \<open>Date\<close> object is truthy.\<close>

fun truthy_str :: "string js \<Rightarrow> bool" where
  "truthy_str (Val s) = (s \<noteq> [])"
| "truthy_str Null = False"
| "truthy_str Undefined = False"

fun truthy_obj :: "'a js \<Rightarrow> bool" where
  "truthy_obj (Val x) = True"
| "truthy_obj Null = False"
| "truthy_obj Undefined = False"

section \<open>Constants of \<open>../constants\<close>\<close>

text \<open>
  Modelled from the spec: the module \<open>../constants\<close> (FILE_SIZE_LIMIT,
  IMAGE_SUPPORTED_FORMATS, GENERAL_SUPPORTED_FORMATS) is not among the sources.
  The spec gives the limit as 2 MB and the formats as JPEG, JPG, GIF, PNG for
  images, with PDF, DOC, DOCX, TXT added for proofs; the messages of the source say
  the same. The formats are written as their MIME strings.
\<close>

definition MB :: nat where
  "MB = 1024 * 1024"

definition FILE_SIZE_LIMIT :: nat where
  "FILE_SIZE_LIMIT = 2 * MB"

definition IMAGE_SUPPORTED_FORMATS :: "string list" where
  "IMAGE_SUPPORTED_FORMATS = [''image/jpg'', ''image/jpeg'', ''image/gif'', ''image/png'']"

definition GENERAL_SUPPORTED_FORMATS :: "string list" where
  "GENERAL_SUPPORTED_FORMATS =
     [''image/jpg'', ''image/jpeg'', ''image/gif'', ''image/png'', ''application/pdf'',
      ''application/msword'',
      ''application/vnd.openxmlformats-officedocument.wordprocessingml.document'',
      ''text/plain'']"

section \<open>The schema library, as far as the source uses it\<close>

text \<open>
  A test function returns \<open>true\<close>, a falsy value (\<open>false\<close>, or nothing at all), or
  the error made by \<open>this.createError({message})\<close>.
\<close>

datatype outcome = Pass | Fail | Error string

definition of_bool_outcome :: "bool \<Rightarrow> outcome" where
  "of_bool_outcome b = (if b then Pass else Fail)"

text \<open>
  A schema: the transform applied by the cast, the type check with its message
  (\<open>typeError\<close>), whether \<open>null\<close> and \<open>undefined\<close> are refused and with
  which message (\<open>nullable\<close>, \<open>required\<close>),
  the values excluded by \<open>notOneOf\<close> with their message, and the tests in the order
  they were added, each with its message.
\<close>

record 'a schema =
  transform :: "'a \<Rightarrow> 'a"
  typeCheck :: "'a \<Rightarrow> bool"
  typeError :: string
  notNull :: "string option"
  notDefined :: "string option"
  blacklist :: "'a list"
  notOneOfMsg :: string
  tests :: "(string \<times> ('a js \<Rightarrow> outcome)) list"

text \<open>
  The tests run in the order of their declaration and the first that fails gives the
  field's message: a falsy result gives the message of the test, a created error its
  own.
\<close>

fun run_tests :: "(string \<times> ('a js \<Rightarrow> outcome)) list \<Rightarrow> 'a js \<Rightarrow> string option" where
  "run_tests [] v = None"
| "run_tests ((msg, f) # ts) v =
     (case f v of Pass \<Rightarrow> run_tests ts v | Fail \<Rightarrow> Some msg | Error m \<Rightarrow> Some m)"

text \<open>
  Validation of one value: the value is cast (strings are trimmed where the schema
  says \<open>trim()\<close>; nothing else of the cast changes a value of the model), then
  checked. \<open>None\<close> is acceptance, \<open>Some m\<close> the message of the
  first failure. The checks of type, \<open>null\<close>, \<open>undefined\<close> and \<open>notOneOf\<close> come
  before the declared tests, which run only when those passed.
\<close>

definition cast :: "'a schema \<Rightarrow> 'a js \<Rightarrow> 'a js" where
  "cast s v = (case v of Val x \<Rightarrow> Val (transform s x) | Null \<Rightarrow> Null | Undefined \<Rightarrow> Undefined)"

definition check :: "'a schema \<Rightarrow> 'a js \<Rightarrow> string option" where
  "check s v =
     (case v of
        Null \<Rightarrow> (case notNull s of Some m \<Rightarrow> Some m | None \<Rightarrow> run_tests (tests s) v)
      | Undefined \<Rightarrow> (case notDefined s of Some m \<Rightarrow> Some m | None \<Rightarrow> run_tests (tests s) v)
      | Val x \<Rightarrow>
          if \<not> typeCheck s x then Some (typeError s)
          else if x \<in> set (blacklist s) then Some (notOneOfMsg s)
          else run_tests (tests s) v)"

definition validate :: "'a schema \<Rightarrow> 'a js \<Rightarrow> string option" where
  "validate s v = check s (cast s v)"

text \<open>
  A fresh schema accepts \<open>undefined\<close> and refuses \<open>null\<close> with the library's
  message \<open><path> cannot be null\<close>. \<open>mixed\<close>, \<open>string\<close> and \<open>array\<close> accept every
  value of the model's type, so their default type message (which prints the value)
  is never produced and is left empty; \<open>date\<close> refuses the invalid date.
\<close>

definition base :: "string \<Rightarrow> ('a \<Rightarrow> bool) \<Rightarrow> 'a schema" where
  "base path chk =
     \<lparr> transform = (\<lambda>x. x), typeCheck = chk, typeError = [], notNull = Some (path @ '' cannot be null''),
       notDefined = None, blacklist = [], notOneOfMsg = [], tests = [] \<rparr>"

definition mixed :: "string \<Rightarrow> 'a schema" where
  "mixed path = base path (\<lambda>x. True)"

definition array :: "string \<Rightarrow> ('a list) schema" where
  "array path = base path (\<lambda>x. True)"

definition string_s :: "string \<Rightarrow> string schema" where
  "string_s path = base path (\<lambda>x. True)"

definition date :: "string \<Rightarrow> jsdate schema" where
  "date path = base path (\<lambda>d. d \<noteq> InvalidDate)"

definition nullable :: "'a schema \<Rightarrow> 'a schema" where
  "nullable s = s\<lparr>notNull := None\<rparr>"

text \<open>\<open>required(msg)\<close> refuses \<open>null\<close> and \<open>undefined\<close> with \<open>msg\<close>. It has no
  further test for an array or a date: an empty array is a present value.\<close>

definition required :: "string \<Rightarrow> 'a schema \<Rightarrow> 'a schema" where
  "required msg s = s\<lparr>notNull := Some msg, notDefined := Some msg\<rparr>"

definition test :: "string \<Rightarrow> ('a js \<Rightarrow> outcome) \<Rightarrow> 'a schema \<Rightarrow> 'a schema" where
  "test msg f s = s\<lparr>tests := tests s @ [(msg, f)]\<rparr>"

definition setTypeError :: "string \<Rightarrow> 'a schema \<Rightarrow> 'a schema" where
  "setTypeError msg s = s\<lparr>typeError := msg\<rparr>"

definition notOneOf :: "'a list \<Rightarrow> string \<Rightarrow> 'a schema \<Rightarrow> 'a schema" where
  "notOneOf vs msg s = s\<lparr>blacklist := blacklist s @ vs, notOneOfMsg := msg\<rparr>"

text \<open>A chain \<open>s.a().b().c()\<close> is \<open>chain s [a, b, c]\<close>.\<close>

definition chain :: "'s \<Rightarrow> ('s \<Rightarrow> 's) list \<Rightarrow> 's" where
  "chain s fs = foldl (\<lambda>acc f. f acc) s fs"

section \<open>Strings\<close>

text \<open>
  Characters by their code. The classes are those of the regular expressions of the
  source: \<open>[a-z]\<close>, \<open>[A-Z]\<close>, \<open>\d\<close> (the ASCII digits) and the white space that
  \<open>trim()\<close> removes. A character of the model is a code unit below 256; of the
  white space of \<open>trim()\<close> these are tab, line feed, vertical tab, form feed,
  carriage return (9 to 13), space (32) and the no-break space U+00A0 (160).
\<close>

definition is_lower :: "char \<Rightarrow> bool" where
  "is_lower c = (97 \<le> (of_char c :: nat) \<and> (of_char c :: nat) \<le> 122)"

definition is_upper :: "char \<Rightarrow> bool" where
  "is_upper c = (65 \<le> (of_char c :: nat) \<and> (of_char c :: nat) \<le> 90)"

definition is_digit :: "char \<Rightarrow> bool" where
  "is_digit c = (48 \<le> (of_char c :: nat) \<and> (of_char c :: nat) \<le> 57)"

definition is_space :: "char \<Rightarrow> bool" where
  "is_space c = ((of_char c :: nat) = 32 \<or> (of_char c :: nat) = 160
                 \<or> (9 \<le> (of_char c :: nat) \<and> (of_char c :: nat) \<le> 13))"

definition trim :: "string \<Rightarrow> string" where
  "trim s = rev (dropWhile is_space (rev (dropWhile is_space s)))"

text \<open>\<open>string().required(msg)\<close> also refuses the empty string, by a test that
  skips \<open>null\<close> and \<open>undefined\<close>, as the other tests of the library do.\<close>

definition string_required :: "string \<Rightarrow> string schema \<Rightarrow> string schema" where
  "string_required msg s =
     test msg (\<lambda>v. case v of Val x \<Rightarrow> of_bool_outcome (x \<noteq> []) | Null \<Rightarrow> Pass | Undefined \<Rightarrow> Pass)
       (required msg s)"

definition length_s :: "nat \<Rightarrow> string \<Rightarrow> string schema \<Rightarrow> string schema" where
  "length_s n msg =
     test msg (\<lambda>v. case v of Val x \<Rightarrow> of_bool_outcome (length x = n) | Null \<Rightarrow> Pass | Undefined \<Rightarrow> Pass)"

definition min_s :: "nat \<Rightarrow> string \<Rightarrow> string schema \<Rightarrow> string schema" where
  "min_s n msg =
     test msg (\<lambda>v. case v of Val x \<Rightarrow> of_bool_outcome (n \<le> length x) | Null \<Rightarrow> Pass | Undefined \<Rightarrow> Pass)"

text \<open>\<open>matches(re, msg)\<close>, the regular expression given as the predicate it decides.\<close>

definition matches :: "(string \<Rightarrow> bool) \<Rightarrow> string \<Rightarrow> string schema \<Rightarrow> string schema" where
  "matches re msg =
     test msg (\<lambda>v. case v of Val x \<Rightarrow> of_bool_outcome (re x) | Null \<Rightarrow> Pass | Undefined \<Rightarrow> Pass)"

text \<open>\<open>trim()\<close> trims in the cast and adds the test that the value is trimmed.\<close>

definition trim_s :: "string \<Rightarrow> string schema \<Rightarrow> string schema" where
  "trim_s path s =
     test (path @ '' must be a trimmed string'')
       (\<lambda>v. case v of Val x \<Rightarrow> of_bool_outcome (x = trim x) | Null \<Rightarrow> Pass | Undefined \<Rightarrow> Pass)
       (s\<lparr>transform := (\<lambda>x. trim (transform s x))\<rparr>)"

text \<open>\<open>date().min(d, msg)\<close> and \<open>date().max(d, msg)\<close>; a comparison with the invalid
  date is false.\<close>

definition min_d :: "int \<Rightarrow> string \<Rightarrow> jsdate schema \<Rightarrow> jsdate schema" where
  "min_d lim msg =
     test msg (\<lambda>v. case v of Val (Date t) \<Rightarrow> of_bool_outcome (lim \<le> t) | Val InvalidDate \<Rightarrow> Fail
                   | Null \<Rightarrow> Pass | Undefined \<Rightarrow> Pass)"

definition max_d :: "int \<Rightarrow> string \<Rightarrow> jsdate schema \<Rightarrow> jsdate schema" where
  "max_d lim msg =
     test msg (\<lambda>v. case v of Val (Date t) \<Rightarrow> of_bool_outcome (t \<le> lim) | Val InvalidDate \<Rightarrow> Fail
                   | Null \<Rightarrow> Pass | Undefined \<Rightarrow> Pass)"

text \<open>\<open>s.when(key, {is, then})\<close> once the condition \<open>is\<close> has been decided on the
  sibling's value.\<close>

definition when_is :: "bool \<Rightarrow> ('s \<Rightarrow> 's) \<Rightarrow> 's \<Rightarrow> 's" where
  "when_is c f s = (if c then f s else s)"

section \<open>File rules\<close>

subsection \<open>Registration form (\<open>registrationForm.ts\<close>)\<close>

definition reg_imageFileSchema :: "upload schema" where
  "reg_imageFileSchema = chain (mixed ''profilePic'')
     [ nullable,
       test ''Not a file''
         (\<lambda>v. case v of Null \<Rightarrow> Pass | Undefined \<Rightarrow> Pass
               | Val x \<Rightarrow> if instanceof_File x then Pass else Fail),
       test ''File too large (max 2MB)''
         (\<lambda>v. case v of Null \<Rightarrow> Pass | Undefined \<Rightarrow> Pass
               | Val x \<Rightarrow> if instanceof_File x
                          then of_bool_outcome (js_le (prop_size x) FILE_SIZE_LIMIT)
                          else Fail),
       test ''Unsupported file format (only JPG, JPEG, GIF, PNG)''
         (\<lambda>v. case v of Null \<Rightarrow> Pass | Undefined \<Rightarrow> Pass
               | Val x \<Rightarrow> if instanceof_File x
                          then of_bool_outcome (js_includes IMAGE_SUPPORTED_FORMATS (prop_type x))
                          else Fail) ]"

definition reg_proofFileSchema :: "string \<Rightarrow> (upload list) schema" where
  "reg_proofFileSchema path = chain (array path)
     [ nullable,
       test ''Not a file''
         (\<lambda>v. case v of Null \<Rightarrow> Pass | Undefined \<Rightarrow> Pass
               | Val xs \<Rightarrow> of_bool_outcome (list_all instanceof_File xs)),
       test ''File too large (max 2MB)''
         (\<lambda>v. case v of Null \<Rightarrow> Pass | Undefined \<Rightarrow> Pass
               | Val xs \<Rightarrow> of_bool_outcome
                   (list_all (\<lambda>f. js_le (prop_size f) FILE_SIZE_LIMIT) xs)),
       test ''Unsupported file format (only JPG, JPEG, GIF, PNG, PDF, DOC, DOCX, TXT)''
         (\<lambda>v. case v of Null \<Rightarrow> Pass | Undefined \<Rightarrow> Pass
               | Val xs \<Rightarrow> of_bool_outcome
                   (list_all (\<lambda>f. js_includes GENERAL_SUPPORTED_FORMATS (prop_type f)) xs)) ]"

subsection \<open>Edit form\<close>

definition edit_imageFileSchema :: "upload schema" where
  "edit_imageFileSchema = chain (mixed ''profilePic'')
     [ nullable,
       test ''File too large (max 2MB)''
         (\<lambda>v. case v of Null \<Rightarrow> Pass | Undefined \<Rightarrow> Pass
               | Val x \<Rightarrow> if instanceof_File x
                          then of_bool_outcome (js_le (prop_size x) FILE_SIZE_LIMIT)
                          else if typeof_string x then Pass else Fail),
       test ''Unsupported file format (only JPG, JPEG, GIF, PNG)''
         (\<lambda>v. case v of Null \<Rightarrow> Pass | Undefined \<Rightarrow> Pass
               | Val x \<Rightarrow> if instanceof_File x
                          then of_bool_outcome (js_includes IMAGE_SUPPORTED_FORMATS (prop_type x))
                          else if typeof_string x then Pass else Fail) ]"

definition edit_proofFileSchema :: "string \<Rightarrow> (upload list) schema" where
  "edit_proofFileSchema path = chain (array path)
     [ nullable,
       test ''File too large (max 2MB)''
         (\<lambda>v. case v of Null \<Rightarrow> Pass | Undefined \<Rightarrow> Pass
               | Val xs \<Rightarrow> of_bool_outcome
                   (list_all (\<lambda>item. if instanceof_File item
                                       then js_le (prop_size item) FILE_SIZE_LIMIT
                                       else typeof_string item) xs)),
       test ''Unsupported file format (only JPG, JPEG, GIF, PNG, PDF, DOC, DOCX, TXT)''
         (\<lambda>v. case v of Null \<Rightarrow> Pass | Undefined \<Rightarrow> Pass
               | Val xs \<Rightarrow> of_bool_outcome
                   (list_all (\<lambda>item. if instanceof_File item
                                       then js_includes GENERAL_SUPPORTED_FORMATS (prop_type item)
                                       else typeof_string item) xs)) ]"

text \<open>The two forms, and the \<open>proofFileSchema\<close> of each.\<close>

datatype form_kind = Registration | Edit

fun proofFileSchema :: "form_kind \<Rightarrow> string \<Rightarrow> (upload list) schema" where
  "proofFileSchema Registration = reg_proofFileSchema"
| "proofFileSchema Edit = edit_proofFileSchema"

section \<open>The forms\<close>

text \<open>
  \<open>editFormType\<close> and \<open>registrationFormType\<close>. The registration form has the
  fields of the edit form and the two password fields. Every field may be
  \<open>undefined\<close> or \<open>null\<close> when the form is validated, whatever its declared type.
\<close>

record address =
  addressLine1 :: "string js"
  addressLine2 :: "string js"
  city :: "string js"
  zipCode :: "string js"

record school =
  name :: "string js"
  id' :: "string js"
  proof' :: "upload list js"
  expiry :: "jsdate js"

record editFormType =
  profilePic :: "upload js"
  fullName :: "string js"
  username :: "string js"
  email :: "string js"
  address :: address
  phone :: "string js"
  userType :: "string js"
  dob :: "jsdate js"
  nationalId :: "string js"
  school :: "school js"
  nationalIdProof :: "upload list js"

record registrationFormType = editFormType +
  password :: "string js"
  confirmPassword :: "string js"

definition registrationFormInitialValues :: registrationFormType where
  "registrationFormInitialValues =
     \<lparr> profilePic = Null, fullName = Val [], username = Val [], email = Val [],
       address = \<lparr> addressLine1 = Val [], addressLine2 = Val [], city = Val [], zipCode = Val [] \<rparr>,
       phone = Val [], userType = Val ''general'', dob = Null, nationalId = Val [],
       school = Val \<lparr> name = Val [], id' = Val [], proof' = Null, expiry = Null \<rparr>,
       nationalIdProof = Null, password = Val [], confirmPassword = Val [] \<rparr>"

definition editFormInitialValues :: editFormType where
  "editFormInitialValues =
     \<lparr> profilePic = Null, fullName = Val [], username = Val [], email = Val [],
       address = \<lparr> addressLine1 = Val [], addressLine2 = Val [], city = Val [], zipCode = Val [] \<rparr>,
       phone = Val [], userType = Val [], dob = Null, nationalId = Val [],
       school = Val \<lparr> name = Val [], id' = Val [], proof' = Null, expiry = Null \<rparr>,
       nationalIdProof = Null \<rparr>"

section \<open>Field rules\<close>

subsection \<open>\<open>usernameSchema\<close>\<close>

definition usernameSchema :: "string schema" where
  "usernameSchema = chain (string_s ''username'')
     [ string_required ''Username is required'',
       length_s 5 ''Username must be exactly 5 characters'',
       test ''Username must contain at least one letter and one digit and only lowercase letters and digits are allowed''
         (\<lambda>v. case v of
                Null \<Rightarrow> Fail
              | Undefined \<Rightarrow> Fail
              | Val x \<Rightarrow>
                  if x = [] then Fail
                  else let hasValidChars = (length x = 5 \<and> list_all (\<lambda>c. is_lower c \<or> is_digit c) x)
                       in if \<not> hasValidChars then Fail
                          else let hasLetter = list_ex is_lower x; hasDigit = list_ex is_digit x
                               in of_bool_outcome (hasLetter \<and> hasDigit)) ]"

subsection \<open>\<open>userType\<close> (the same text in both forms)\<close>

text \<open>
  \<open>calculateAge\<close> of \<open>../ageCalculator\<close> is not among the sources: it is a
  parameter, a function from the date of birth to a number. The condition of each
  \<open>when\<close> reads the sibling \<open>dob\<close>: a missing one gives \<open>false\<close>, every \<open>Date\<close>
  object, the invalid one too, goes to \<open>calculateAge\<close>.
\<close>

text \<open>The message of the second condition holds double quotes:
  \<open>Type cannot be "Student" or "General" for an age of 60 or older.\<close>\<close>

definition dq :: string where
  "dq = [CHR 0x22]"

definition age60_msg :: string where
  "age60_msg = ''Type cannot be '' @ dq @ ''Student'' @ dq @ '' or '' @ dq @ ''General'' @ dq
                 @ '' for an age of 60 or older.''"

definition userTypeSchema :: "(jsdate \<Rightarrow> jsnum) \<Rightarrow> jsdate js \<Rightarrow> string schema" where
  "userTypeSchema calculateAge dob_v = chain (string_s ''userType'')
     [ string_required ''User type is required'',
       test ''Invalid user type''
         (\<lambda>v. case v of
                Null \<Rightarrow> Fail
              | Undefined \<Rightarrow> Fail
              | Val x \<Rightarrow>
                  if x = [] then Fail
                  else if x = ''student'' \<or> x = ''general'' \<or> x = ''pension'' then Pass
                  else Fail),
       when_is (case dob_v of Val d \<Rightarrow> js_lt (calculateAge d) 60 | Null \<Rightarrow> False | Undefined \<Rightarrow> False)
         (notOneOf [''pension''] ''Age is less than 60 for Pension User.''),
       when_is (case dob_v of Val d \<Rightarrow> js_ge (calculateAge d) 60 | Null \<Rightarrow> False | Undefined \<Rightarrow> False)
         (notOneOf [''student'', ''general''] age60_msg) ]"

definition validate_userType :: "(jsdate \<Rightarrow> jsnum) \<Rightarrow> 'a editFormType_scheme \<Rightarrow> string option" where
  "validate_userType calculateAge fv = validate (userTypeSchema calculateAge (dob fv)) (userType fv)"

subsection \<open>\<open>dob\<close> (the same text in both forms)\<close>

text \<open>
  \<open>new Date()\<close> is evaluated when \<open>createRegistrationValidationSchema\<close> (or
  \<open>editProfileFormValidationSchema\<close>) builds the schema: \<open>created\<close> is that moment.
\<close>

definition dobSchema :: "int \<Rightarrow> jsdate schema" where
  "dobSchema created = chain (date ''dob'')
     [ required ''Date of birth is required'',
       setTypeError ''Invalid date'',
       max_d created ''Date of birth cannot be in the future'' ]"

definition validate_dob :: "int \<Rightarrow> 'a editFormType_scheme \<Rightarrow> string option" where
  "validate_dob created fv = validate (dobSchema created) (dob fv)"

subsection \<open>\<open>school\<close>\<close>

text \<open>
  \<open>schoolSchema\<close> is a constant of its module, so its \<open>new Date()\<close> is the moment
  the module was loaded: \<open>loaded\<close>. \<open>pf\<close> is the \<open>proofFileSchema\<close> of the form.
  The result lists the failing paths with their messages; the empty list is
  acceptance.
\<close>

definition errs :: "string \<Rightarrow> string option \<Rightarrow> (string \<times> string) list" where
  "errs path r = (case r of None \<Rightarrow> [] | Some m \<Rightarrow> [(path, m)])"

definition school_name_schema :: "string schema" where
  "school_name_schema = chain (string_s ''school.name'')
     [ trim_s ''school.name'',
       min_s 2 ''School/ University name must be at least 2 characters'',
       string_required ''School/ University Name is required'' ]"

definition id_regex :: "string \<Rightarrow> bool" where
  "id_regex s = (s \<noteq> [] \<and> list_all (\<lambda>c. is_upper c \<or> is_lower c \<or> is_digit c \<or> c = CHR ''-'') s)"

definition school_id_schema :: "string schema" where
  "school_id_schema = chain (string_s ''school.id'')
     [ trim_s ''school.id'',
       matches id_regex ''ID can only contain letters, numbers, and hyphens'',
       string_required ''School/ University ID is required'' ]"

definition school_proof_schema :: "(string \<Rightarrow> (upload list) schema) \<Rightarrow> (upload list) schema" where
  "school_proof_schema pf = chain (pf ''school.proof'') [ required ''Proof is required'' ]"

definition school_expiry_schema :: "int \<Rightarrow> jsdate schema" where
  "school_expiry_schema loaded = chain (date ''school.expiry'')
     [ required ''Expiry date is required'',
       setTypeError ''Invalid date'',
       min_d loaded ''Expiry date cannot be in the past'' ]"

definition schoolSchema :: "(string \<Rightarrow> (upload list) schema) \<Rightarrow> int \<Rightarrow> school \<Rightarrow> (string \<times> string) list" where
  "schoolSchema pf loaded s =
     errs ''school.name'' (validate school_name_schema (name s))
     @ errs ''school.id'' (validate school_id_schema (id' s))
     @ errs ''school.proof'' (validate (school_proof_schema pf) (proof' s))
     @ errs ''school.expiry'' (validate (school_expiry_schema loaded) (expiry s))"

text \<open>
  \<open>schoolSchema.required(msg)\<close>: \<open>null\<close> is refused with \<open>msg\<close>; the cast of an
  object schema replaces \<open>undefined\<close> by the object whose fields are all
  \<open>undefined\<close>, which is then validated field by field.
\<close>

definition schoolSchema_required ::
  "(string \<Rightarrow> (upload list) schema) \<Rightarrow> int \<Rightarrow> school js \<Rightarrow> (string \<times> string) list" where
  "schoolSchema_required pf loaded v =
     (case v of
        Null \<Rightarrow> [(''school'', ''School details are required'')]
      | Undefined \<Rightarrow>
          schoolSchema pf loaded
            \<lparr> name = Undefined, id' = Undefined, proof' = Undefined, expiry = Undefined \<rparr>
      | Val s \<Rightarrow> schoolSchema pf loaded s)"

definition hasData :: "school \<Rightarrow> bool" where
  "hasData schoolValue =
     (truthy_str (name schoolValue) \<or> truthy_str (id' schoolValue)
      \<or> (case proof' schoolValue of Val xs \<Rightarrow> length xs \<noteq> 0 | Null \<Rightarrow> False | Undefined \<Rightarrow> False)
      \<or> truthy_obj (expiry schoolValue))"

text \<open>The schema of the other branch is a new \<open>Yup.mixed()\<close> with one test; the
  test has no message of its own, so a falsy result would give the library's.\<close>

definition school_conditional :: "school schema" where
  "school_conditional = chain (mixed ''school'')
     [ test ''school is invalid''
         (\<lambda>v. case v of
                Null \<Rightarrow> Pass
              | Undefined \<Rightarrow> Pass
              | Val schoolValue \<Rightarrow>
                  if \<not> hasData schoolValue then Pass
                  else Error ''School details are only allowed for student users'') ]"

definition validate_school ::
  "(string \<Rightarrow> (upload list) schema) \<Rightarrow> int \<Rightarrow> 'a editFormType_scheme \<Rightarrow> (string \<times> string) list" where
  "validate_school pf loaded fv =
     (let isStudent = (userType fv = Val ''student'')
      in if isStudent then schoolSchema_required pf loaded (school fv)
         else errs ''school'' (validate school_conditional (school fv)))"

subsection \<open>\<open>nationalIdProof\<close>\<close>

definition nationalIdProofSchema ::
  "(string \<Rightarrow> (upload list) schema) \<Rightarrow> string js \<Rightarrow> (upload list) schema" where
  "nationalIdProofSchema pf userType_v = chain (pf ''nationalIdProof'')
     [ nullable,
       test ''National ID Proof is only allowed for pensioners''
         (\<lambda>v. case v of
                Null \<Rightarrow> Pass
              | Undefined \<Rightarrow> Pass
              | Val xs \<Rightarrow>
                  if length xs = 0 then Pass
                  else if userType_v \<noteq> Val ''pension''
                  then Error ''National ID Proof is only allowed for pensioners.''
                  else Pass),
       when_is (userType_v = Val ''pension'') (required ''National ID Proof is required'') ]"

definition validate_nationalIdProof ::
  "(string \<Rightarrow> (upload list) schema) \<Rightarrow> 'a editFormType_scheme \<Rightarrow> string option" where
  "validate_nationalIdProof pf fv =
     validate (nationalIdProofSchema pf (userType fv)) (nationalIdProof fv)"

section \<open>\<open>setDefaultValuesInEditForm\<close>\<close>

text \<open>
  Modelled from the spec: the type \<open>Profile\<close> is not among the sources. The spec
  lists its fields; each holds \<open>undefined\<close>, \<open>null\<close> or a string, the two proof
  fields a list of strings. The fields \<open>email\<close> and \<open>city\<close> are written
  \<open>email_p\<close> and \<open>city_p\<close> here, apart from the form's fields of these names.
\<close>

record Profile =
  avatar_url :: "string js"
  full_name :: "string js"
  user_name :: "string js"
  email_p :: "string js"
  address_line1 :: "string js"
  address_line2 :: "string js"
  city_p :: "string js"
  zip_code :: "string js"
  phone_number :: "string js"
  user_type :: "string js"
  date_of_birth :: "string js"
  national_id :: "string js"
  school_name :: "string js"
  school_id :: "string js"
  student_proof_url :: "string list js"
  school_expiry :: "string js"
  national_id_proof_url :: "string list js"

text \<open>\<open>a || b\<close> on strings and on arrays.\<close>

definition or_str :: "string js \<Rightarrow> string js \<Rightarrow> string js" where
  "or_str a b = (if truthy_str a then a else b)"

definition or_obj :: "'a js \<Rightarrow> 'a js \<Rightarrow> 'a js" where
  "or_obj a b = (if truthy_obj a then a else b)"

fun map_js :: "('a \<Rightarrow> 'b) \<Rightarrow> 'a js \<Rightarrow> 'b js" where
  "map_js f (Val x) = Val (f x)"
| "map_js f Null = Null"
| "map_js f Undefined = Undefined"

text \<open>
  The function hands one object to the callback \<open>setDefaultValues\<close>; the model
  returns that object. \<open>newDate\<close> is JavaScript's \<open>new Date(string)\<close>.
\<close>

definition setDefaultValuesInEditForm :: "(string \<Rightarrow> jsdate) \<Rightarrow> Profile \<Rightarrow> string \<Rightarrow> editFormType" where
  "setDefaultValuesInEditForm newDate data userEmail =
     \<lparr> profilePic = map_js Str (or_str (avatar_url data) Null),
       fullName = full_name data,
       username = user_name data,
       email = or_str (email_p data) (Val userEmail),
       address =
         \<lparr> addressLine1 = or_str (address_line1 data) (Val []),
           addressLine2 = or_str (address_line2 data) (Val []),
           city = or_str (city_p data) (Val []),
           zipCode = or_str (zip_code data) (Val []) \<rparr>,
       phone = or_str (phone_number data) (Val []),
       userType = or_str (user_type data) (Val ''general''),
       dob = (if truthy_str (date_of_birth data) then map_js newDate (date_of_birth data) else Null),
       nationalId = or_str (national_id data) (Val []),
       school = Val
         \<lparr> name = or_str (school_name data) (Val []),
           id' = or_str (school_id data) (Val []),
           proof' = map_js (map Str) (or_obj (student_proof_url data) Null),
           expiry = (if truthy_str (school_expiry data) then map_js newDate (school_expiry data) else Null) \<rparr>,
       nationalIdProof = map_js (map Str) (or_obj (national_id_proof_url data) Null) \<rparr>"

section \<open>Inputs of the examples\<close>

text \<open>
  The form of the spec's end-to-end example, with the fields open that the
  conditional rules read; a stored profile; and an age function to stand for
  \<open>calculateAge\<close> in the examples: the whole years of 365 days between the date
  and \<open>now\<close>, and \<open>NaN\<close> for the invalid date.
\<close>

definition sample_form :: "string js \<Rightarrow> jsdate js \<Rightarrow> school js \<Rightarrow> upload list js \<Rightarrow> editFormType" where
  "sample_form ut d sc nip =
     \<lparr> profilePic = Null, fullName = Val ''Jane Doe'', username = Val ''ab3de'',
       email = Val ''jane@x.com'',
       address = \<lparr> addressLine1 = Val ''1 Rd'', addressLine2 = Undefined,
                   city = Val ''Metropolis'', zipCode = Val ''1000'' \<rparr>,
       phone = Val ''+123456'', userType = ut, dob = d, nationalId = Val [],
       school = sc, nationalIdProof = nip \<rparr>"

definition sample_profile :: Profile where
  "sample_profile =
     \<lparr> avatar_url = Val [], full_name = Val ''Jane Doe'', user_name = Val ''ab3de'',
       email_p = Null, address_line1 = Val ''1 Rd'', address_line2 = Null,
       city_p = Val ''Metropolis'', zip_code = Val ''1000'', phone_number = Val ''+123456'',
       user_type = Val ''student'', date_of_birth = Val ''2001-02-03'', national_id = Null,
       school_name = Val ''Hill School'', school_id = Val ''HS-77'',
       student_proof_url = Val [''proofs/card.png''], school_expiry = Null,
       national_id_proof_url = Null \<rparr>"

definition year_ms :: int where
  "year_ms = 365 * 24 * 3600 * 1000"

definition example_age :: "int \<Rightarrow> jsdate \<Rightarrow> jsnum" where
  "example_age now d = (case d of Date t \<Rightarrow> Num ((now - t) div year_ms) | InvalidDate \<Rightarrow> NaN)"

lemmas schema_defs =
  chain_def base_def mixed_def array_def string_s_def date_def nullable_def required_def
  test_def setTypeError_def notOneOf_def validate_def check_def cast_def of_bool_outcome_def
  string_required_def length_s_def min_s_def matches_def trim_s_def min_d_def max_d_def when_is_def

section \<open>Helper lemmas\<close>





section \<open>The file rules\<close>

text \<open>
  Claim C7. The image rule of \<open>profilePic\<close> (registration form) accepts \<open>null\<close> and
  \<open>undefined\<close>; it accepts a file exactly when its size is at most the limit of
  2 MB and its MIME type is one of the image formats; a file of 3 MB of type
  \<open>image/png\<close> fails the size test, a file of 1 MB of type \<open>image/bmp\<close> the format
  test.
\<close>

theorem C7_image_rule:
  "validate reg_imageFileSchema Null = None
   \<and> validate reg_imageFileSchema Undefined = None
   \<and> (validate reg_imageFileSchema (Val (File f)) = None)
       = (file_size f \<le> FILE_SIZE_LIMIT \<and> file_type f \<in> set IMAGE_SUPPORTED_FORMATS)
   \<and> FILE_SIZE_LIMIT = 2 * MB
   \<and> validate reg_imageFileSchema (Val (File \<lparr>file_size = 3 * MB, file_type = ''image/png''\<rparr>))
       = Some ''File too large (max 2MB)''
   \<and> validate reg_imageFileSchema (Val (File \<lparr>file_size = 1 * MB, file_type = ''image/bmp''\<rparr>))
       = Some ''Unsupported file format (only JPG, JPEG, GIF, PNG)''"
  by (simp add: reg_imageFileSchema_def schema_defs FILE_SIZE_LIMIT_def MB_def
      IMAGE_SUPPORTED_FORMATS_def)

text \<open>
  Claim C5. The two image rules differ on strings and nowhere else in what they
  accept: the registration rule answers \<open>Not a file\<close> to every value that is neither
  \<open>null\<close>, \<open>undefined\<close> nor a file; the edit rule accepts every string; on \<open>null\<close>,
  \<open>undefined\<close> and files both give the same answer; and one accepts where the other
  refuses exactly at the strings.
\<close>

theorem C5_image_rules_differ:
  "validate reg_imageFileSchema (Val (Str s)) = Some ''Not a file''
   \<and> validate reg_imageFileSchema (Val (Other sz ty)) = Some ''Not a file''
   \<and> validate edit_imageFileSchema (Val (Str s)) = None
   \<and> validate edit_imageFileSchema Null = validate reg_imageFileSchema Null
   \<and> validate edit_imageFileSchema Undefined = validate reg_imageFileSchema Undefined
   \<and> validate edit_imageFileSchema (Val (File f)) = validate reg_imageFileSchema (Val (File f))
   \<and> ((validate reg_imageFileSchema v = None) \<noteq> (validate edit_imageFileSchema v = None))
       = (\<exists>r. v = Val (Str r))"
proof -
  have "((validate reg_imageFileSchema v = None) \<noteq> (validate edit_imageFileSchema v = None))
       = (\<exists>r. v = Val (Str r))"
  proof (cases v)
    case (Val x)
    then show ?thesis
      by (cases x) (auto simp add: reg_imageFileSchema_def edit_imageFileSchema_def schema_defs)
  qed (simp_all add: reg_imageFileSchema_def edit_imageFileSchema_def schema_defs)
  then show ?thesis
    by (simp add: reg_imageFileSchema_def edit_imageFileSchema_def schema_defs)
qed

text \<open>
  Claim C4, as amended. The proof-file rule of the registration form accepts \<open>null\<close>
  and \<open>undefined\<close>, and accepts a list exactly when every element is a file of at
  most 2 MB whose MIME type is one of the general formats. Otherwise the first
  failing test gives the message: \<open>Not a file\<close> when some element is not a file (a
  string reference included), else \<open>File too large (max 2MB)\<close> when some file is
  larger than the limit, else the message of the format test.
\<close>

theorem C4_reg_proof_files:
  "validate (reg_proofFileSchema p) Null = None
   \<and> validate (reg_proofFileSchema p) Undefined = None
   \<and> (validate (reg_proofFileSchema p) (Val xs) = None)
       = list_all (\<lambda>x. case x of
                     File f \<Rightarrow> file_size f \<le> FILE_SIZE_LIMIT
                               \<and> file_type f \<in> set GENERAL_SUPPORTED_FORMATS
                   | Str r \<Rightarrow> False
                   | Other sz ty \<Rightarrow> False) xs
   \<and> validate (reg_proofFileSchema p) (Val xs)
       = (if list_ex (\<lambda>x. \<not> instanceof_File x) xs then Some ''Not a file''
          else if list_ex (\<lambda>x. case x of File f \<Rightarrow> FILE_SIZE_LIMIT < file_size f
                                | Str r \<Rightarrow> False | Other sz ty \<Rightarrow> False) xs
          then Some ''File too large (max 2MB)''
          else if list_ex (\<lambda>x. case x of File f \<Rightarrow> file_type f \<notin> set GENERAL_SUPPORTED_FORMATS
                                | Str r \<Rightarrow> False | Other sz ty \<Rightarrow> False) xs
          then Some ''Unsupported file format (only JPG, JPEG, GIF, PNG, PDF, DOC, DOCX, TXT)''
          else None)"
proof -
  have a: "list_all instanceof_File xs \<Longrightarrow>
        list_all (\<lambda>f. js_le (prop_size f) FILE_SIZE_LIMIT) xs
        = (\<not> list_ex (\<lambda>x. case x of File f \<Rightarrow> FILE_SIZE_LIMIT < file_size f
                                | Str r \<Rightarrow> False | Other sz ty \<Rightarrow> False) xs)"
    by (induction xs) (auto split: upload.splits)
  have b: "list_all instanceof_File xs \<Longrightarrow>
        list_all (\<lambda>f. js_includes GENERAL_SUPPORTED_FORMATS (prop_type f)) xs
        = (\<not> list_ex (\<lambda>x. case x of File f \<Rightarrow> file_type f \<notin> set GENERAL_SUPPORTED_FORMATS
                                | Str r \<Rightarrow> False | Other sz ty \<Rightarrow> False) xs)"
    by (induction xs) (auto split: upload.splits)
  have c: "list_all (\<lambda>x. case x of
                     File f \<Rightarrow> file_size f \<le> FILE_SIZE_LIMIT
                               \<and> file_type f \<in> set GENERAL_SUPPORTED_FORMATS
                   | Str r \<Rightarrow> False
                   | Other sz ty \<Rightarrow> False) xs
      = (list_all instanceof_File xs
         \<and> list_all (\<lambda>f. js_le (prop_size f) FILE_SIZE_LIMIT) xs
         \<and> list_all (\<lambda>f. js_includes GENERAL_SUPPORTED_FORMATS (prop_type f)) xs)"
    by (induction xs) (auto split: upload.splits)
  have d: "list_ex (\<lambda>x. \<not> instanceof_File x) xs = (\<not> list_all instanceof_File xs)"
    by (induction xs) auto
  show ?thesis
    unfolding c d using a b
    by (simp add: reg_proofFileSchema_def schema_defs)
qed

theorem C4_string_reference_refused:
  "validate (reg_proofFileSchema ''nationalIdProof'') (Val [Str ''proofs/id.png''])
     = Some ''Not a file''"
  by (simp add: reg_proofFileSchema_def schema_defs)

text \<open>
  Claim C6. \<open>usernameSchema\<close> accepts a value exactly when it is a string of five
  characters, all lowercase letters or digits, with at least one letter and one
  digit. It accepts \<open>ab3de\<close> and refuses \<open>ABCDE\<close>, \<open>abcd\<close> and \<open>12345\<close>.
\<close>

theorem C6_username:
  "(validate usernameSchema v = None)
     = (\<exists>s. v = Val s \<and> length s = 5 \<and> list_all (\<lambda>c. is_lower c \<or> is_digit c) s
            \<and> list_ex is_lower s \<and> list_ex is_digit s)
   \<and> validate usernameSchema (Val ''ab3de'') = None
   \<and> validate usernameSchema (Val ''ABCDE'')
       = Some ''Username must contain at least one letter and one digit and only lowercase letters and digits are allowed''
   \<and> validate usernameSchema (Val ''abcd'') = Some ''Username must be exactly 5 characters''
   \<and> validate usernameSchema (Val ''12345'')
       = Some ''Username must contain at least one letter and one digit and only lowercase letters and digits are allowed''"
proof -
  have "(validate usernameSchema v = None)
     = (\<exists>s. v = Val s \<and> length s = 5 \<and> list_all (\<lambda>c. is_lower c \<or> is_digit c) s
            \<and> list_ex is_lower s \<and> list_ex is_digit s)"
    by (cases v) (auto simp add: usernameSchema_def schema_defs Let_def)
  moreover have "validate usernameSchema (Val ''ab3de'') = None"
    by (simp add: usernameSchema_def schema_defs Let_def is_lower_def is_digit_def)
  moreover have "validate usernameSchema (Val ''ABCDE'')
       = Some ''Username must contain at least one letter and one digit and only lowercase letters and digits are allowed''"
    by (simp add: usernameSchema_def schema_defs Let_def is_lower_def is_digit_def)
  moreover have "validate usernameSchema (Val ''abcd'') = Some ''Username must be exactly 5 characters''"
    by (simp add: usernameSchema_def schema_defs Let_def is_lower_def is_digit_def)
  moreover have "validate usernameSchema (Val ''12345'')
       = Some ''Username must contain at least one letter and one digit and only lowercase letters and digits are allowed''"
    by (simp add: usernameSchema_def schema_defs Let_def is_lower_def is_digit_def)
  ultimately show ?thesis by blast
qed

section \<open>The rules that depend on the age and the user type\<close>

lemma userType_no_age:
  assumes "\<not> (case d of Val x \<Rightarrow> js_lt (calculateAge x) 60 | Null \<Rightarrow> False | Undefined \<Rightarrow> False)"
    and "\<not> (case d of Val x \<Rightarrow> js_ge (calculateAge x) 60 | Null \<Rightarrow> False | Undefined \<Rightarrow> False)"
  shows "validate (userTypeSchema calculateAge d) u =
     (case u of
        Null \<Rightarrow> Some ''User type is required''
      | Undefined \<Rightarrow> Some ''User type is required''
      | Val x \<Rightarrow> if x = [] then Some ''User type is required''
                 else if x = ''student'' \<or> x = ''general'' \<or> x = ''pension'' then None
                 else Some ''Invalid user type'')"
  using assms by (cases u) (simp_all add: userTypeSchema_def schema_defs)

text \<open>
  Claim C1. With a date of birth present: when the age is below 60 the rule of
  \<open>userType\<close> answers \<open>Age is less than 60 for Pension User.\<close> to \<open>pension\<close> and
  accepts \<open>student\<close> and \<open>general\<close>; when the age is 60 or more it refuses
  \<open>student\<close> and \<open>general\<close> and accepts \<open>pension\<close>. With \<open>dob\<close> missing, or
  invalid (the age of the invalid date being \<open>NaN\<close>), neither age message is
  ever given and the three user types are accepted.
\<close>

theorem C1_userType_age:
  "(\<forall>d. dob fv = Val d \<longrightarrow> js_lt (calculateAge d) 60 \<longrightarrow>
      (userType fv = Val ''pension'' \<longrightarrow>
         validate_userType calculateAge fv = Some ''Age is less than 60 for Pension User.'')
      \<and> (userType fv = Val ''student'' \<or> userType fv = Val ''general'' \<longrightarrow>
         validate_userType calculateAge fv = None))
   \<and> (\<forall>d. dob fv = Val d \<longrightarrow> js_ge (calculateAge d) 60 \<longrightarrow>
      (userType fv = Val ''student'' \<or> userType fv = Val ''general'' \<longrightarrow>
         validate_userType calculateAge fv = Some age60_msg)
      \<and> (userType fv = Val ''pension'' \<longrightarrow> validate_userType calculateAge fv = None))
   \<and> (dob fv = Null \<or> dob fv = Undefined
        \<or> (dob fv = Val InvalidDate \<and> calculateAge InvalidDate = NaN) \<longrightarrow>
      validate_userType calculateAge fv \<noteq> Some ''Age is less than 60 for Pension User.''
      \<and> validate_userType calculateAge fv \<noteq> Some age60_msg
      \<and> (userType fv = Val ''pension'' \<or> userType fv = Val ''student''
           \<or> userType fv = Val ''general'' \<longrightarrow>
         validate_userType calculateAge fv = None))"
proof (intro conjI allI impI)
  fix d
  assume d: "dob fv = Val d" and a: "js_lt (calculateAge d) 60"
  have n: "\<not> js_ge (calculateAge d) 60" using a by (cases "calculateAge d") simp_all
  show "validate_userType calculateAge fv = Some ''Age is less than 60 for Pension User.''"
    if "userType fv = Val ''pension''"
    using that d a n by (simp add: validate_userType_def userTypeSchema_def schema_defs)
  show "validate_userType calculateAge fv = None"
    if "userType fv = Val ''student'' \<or> userType fv = Val ''general''"
    using that d a n by (auto simp add: validate_userType_def userTypeSchema_def schema_defs)
next
  fix d
  assume d: "dob fv = Val d" and a: "js_ge (calculateAge d) 60"
  have n: "\<not> js_lt (calculateAge d) 60" using a by (cases "calculateAge d") simp_all
  show "validate_userType calculateAge fv = Some age60_msg"
    if "userType fv = Val ''student'' \<or> userType fv = Val ''general''"
    using that d a n by (auto simp add: validate_userType_def userTypeSchema_def schema_defs)
  show "validate_userType calculateAge fv = None"
    if "userType fv = Val ''pension''"
    using that d a n by (simp add: validate_userType_def userTypeSchema_def schema_defs)
next
  assume h: "dob fv = Null \<or> dob fv = Undefined
        \<or> (dob fv = Val InvalidDate \<and> calculateAge InvalidDate = NaN)"
  have lt: "\<not> (case dob fv of Val x \<Rightarrow> js_lt (calculateAge x) 60 | Null \<Rightarrow> False | Undefined \<Rightarrow> False)"
    using h by auto
  have ge: "\<not> (case dob fv of Val x \<Rightarrow> js_ge (calculateAge x) 60 | Null \<Rightarrow> False | Undefined \<Rightarrow> False)"
    using h by auto
  note r = userType_no_age [OF lt ge, of "userType fv"]
  show "validate_userType calculateAge fv \<noteq> Some ''Age is less than 60 for Pension User.''"
    unfolding validate_userType_def r by (simp split: js.splits)
  show "validate_userType calculateAge fv \<noteq> Some age60_msg"
    unfolding validate_userType_def r by (simp add: age60_msg_def dq_def split: js.splits)
  show "validate_userType calculateAge fv = None"
    if "userType fv = Val ''pension'' \<or> userType fv = Val ''student''
           \<or> userType fv = Val ''general''"
    unfolding validate_userType_def r using that by auto
qed

theorem C1_userType_age_witness:
  "validate_userType (example_age (100 * year_ms))
       (sample_form (Val ''pension'') (Val (Date (70 * year_ms))) Undefined Null)
     = Some ''Age is less than 60 for Pension User.''
   \<and> validate_userType (example_age (100 * year_ms))
       (sample_form (Val ''student'') (Val (Date (70 * year_ms))) Undefined Null) = None
   \<and> validate_userType (example_age (100 * year_ms))
       (sample_form (Val ''general'') (Val (Date (30 * year_ms))) Undefined Null) = Some age60_msg
   \<and> validate_userType (example_age (100 * year_ms))
       (sample_form (Val ''pension'') (Val (Date (30 * year_ms))) Undefined Null) = None
   \<and> validate_userType (example_age (100 * year_ms))
       (sample_form (Val ''pension'') Null Undefined Null) = None
   \<and> validate_userType (example_age (100 * year_ms))
       (sample_form (Val ''pension'') (Val InvalidDate) Undefined Null) = None"
proof -
  have y: "js_lt (example_age (100 * year_ms) (Date (70 * year_ms))) 60"
    by (simp add: example_age_def year_ms_def)
  have o: "js_ge (example_age (100 * year_ms) (Date (30 * year_ms))) 60"
    by (simp add: example_age_def year_ms_def)
  have i: "example_age (100 * year_ms) InvalidDate = NaN"
    by (simp add: example_age_def)
  show ?thesis
    using y o i
      C1_userType_age [of "sample_form (Val ''pension'') (Val (Date (70 * year_ms))) Undefined Null"
        "example_age (100 * year_ms)"]
      C1_userType_age [of "sample_form (Val ''student'') (Val (Date (70 * year_ms))) Undefined Null"
        "example_age (100 * year_ms)"]
      C1_userType_age [of "sample_form (Val ''general'') (Val (Date (30 * year_ms))) Undefined Null"
        "example_age (100 * year_ms)"]
      C1_userType_age [of "sample_form (Val ''pension'') (Val (Date (30 * year_ms))) Undefined Null"
        "example_age (100 * year_ms)"]
      C1_userType_age [of "sample_form (Val ''pension'') Null Undefined Null"
        "example_age (100 * year_ms)"]
      C1_userType_age [of "sample_form (Val ''pension'') (Val InvalidDate) Undefined Null"
        "example_age (100 * year_ms)"]
    by (simp add: sample_form_def)
qed

text \<open>
  Claim C8, as amended. The rule of \<open>dob\<close> refuses a missing value with
  \<open>Date of birth is required\<close>, an invalid date with \<open>Invalid date\<close>, and a date later
  than the moment the schema was built (the \<open>new Date()\<close> evaluated by
  \<open>createRegistrationValidationSchema\<close> or \<open>editProfileFormValidationSchema\<close>) with
  \<open>Date of birth cannot be in the future\<close>; it accepts every other date.
\<close>

theorem C8_dob_rule:
  "validate_dob created fv =
     (case dob fv of
        Undefined \<Rightarrow> Some ''Date of birth is required''
      | Null \<Rightarrow> Some ''Date of birth is required''
      | Val InvalidDate \<Rightarrow> Some ''Invalid date''
      | Val (Date t) \<Rightarrow>
          if t \<le> created then None else Some ''Date of birth cannot be in the future'')"
  by (simp add: validate_dob_def dobSchema_def schema_defs split: js.splits jsdate.splits)

text \<open>
  The claim as stated fails: a schema built at time 1000 and used at time 2000
  refuses the date 1500, which is not in the future at the time of validation.
\<close>

theorem C8_not_future_yet_refused:
  "(1000::int) \<le> 2000 \<and> (1500::int) \<le> 2000
   \<and> validate_dob 1000 (sample_form (Val ''general'') (Val (Date 1500)) Undefined Null)
       = Some ''Date of birth cannot be in the future''"
  by (simp add: validate_dob_def dobSchema_def schema_defs sample_form_def)

text \<open>
  Claim C10. For a user type other than \<open>student\<close>, a school block whose name and id
  are empty strings, whose proof is \<open>null\<close> or an empty list and whose expiry is
  \<open>null\<close> gives no school error; so does the school block of the registration
  form's initial values, whatever the other fields are.
\<close>

theorem C10_empty_school_block:
  "(userType fv \<noteq> Val ''student'' \<longrightarrow>
      (\<forall>s. school fv = Val s \<longrightarrow> name s = Val [] \<longrightarrow> id' s = Val [] \<longrightarrow>
           (proof' s = Null \<or> proof' s = Val []) \<longrightarrow> expiry s = Null \<longrightarrow>
           validate_school pf loaded fv = [])
      \<and> (school fv = school registrationFormInitialValues \<longrightarrow>
           validate_school pf loaded fv = []))
   \<and> validate_school pf loaded registrationFormInitialValues = []"
  by (auto simp add: validate_school_def school_conditional_def hasData_def errs_def
      registrationFormInitialValues_def schema_defs Let_def)

theorem C10_empty_school_block_witness:
  "validate_school (proofFileSchema Registration) 0
      (sample_form (Val ''general'') Null
         (Val \<lparr> name = Val [], id' = Val [], proof' = Val [], expiry = Null \<rparr>) Null) = []
   \<and> validate_school (proofFileSchema Registration) 0
      (sample_form (Val ''pension'') Null (school registrationFormInitialValues) Null) = []"
  using
    C10_empty_school_block [of "sample_form (Val ''general'') Null
         (Val \<lparr> name = Val [], id' = Val [], proof' = Val [], expiry = Null \<rparr>) Null"
      "proofFileSchema Registration" 0]
    C10_empty_school_block [of "sample_form (Val ''pension'') Null
         (school registrationFormInitialValues) Null"
      "proofFileSchema Registration" 0]
  by (simp add: sample_form_def)


lemma proof_files_valid:
  "list_all (\<lambda>x. case x of
       File f \<Rightarrow> file_size f \<le> FILE_SIZE_LIMIT \<and> file_type f \<in> set GENERAL_SUPPORTED_FORMATS
     | Str r \<Rightarrow> k = Edit
     | Other sz ty \<Rightarrow> False) xs
   \<Longrightarrow> run_tests (tests (proofFileSchema k path)) (Val xs) = None"
proof -
  assume v: "list_all (\<lambda>x. case x of
       File f \<Rightarrow> file_size f \<le> FILE_SIZE_LIMIT \<and> file_type f \<in> set GENERAL_SUPPORTED_FORMATS
     | Str r \<Rightarrow> k = Edit
     | Other sz ty \<Rightarrow> False) xs"
  show ?thesis
  proof (cases k)
    case Registration
    have "list_all instanceof_File xs
        \<and> list_all (\<lambda>f. js_le (prop_size f) FILE_SIZE_LIMIT) xs
        \<and> list_all (\<lambda>f. js_includes GENERAL_SUPPORTED_FORMATS (prop_type f)) xs"
      using v Registration by (induction xs) (auto split: upload.splits)
    then show ?thesis using Registration
      by (simp add: reg_proofFileSchema_def schema_defs)
  next
    case Edit
    have "list_all (\<lambda>item. if instanceof_File item
                                       then js_le (prop_size item) FILE_SIZE_LIMIT
                                       else typeof_string item) xs
        \<and> list_all (\<lambda>item. if instanceof_File item
                                       then js_includes GENERAL_SUPPORTED_FORMATS (prop_type item)
                                       else typeof_string item) xs"
      using v by (induction xs) (auto split: upload.splits)
    then show ?thesis using Edit
      by (simp add: edit_proofFileSchema_def schema_defs)
  qed
qed

lemma proof_files_shape:
  "transform (proofFileSchema k path) = (\<lambda>x. x) \<and> typeCheck (proofFileSchema k path) = (\<lambda>x. True)
   \<and> blacklist (proofFileSchema k path) = [] \<and> notDefined (proofFileSchema k path) = None"
  by (cases k) (simp_all add: reg_proofFileSchema_def edit_proofFileSchema_def schema_defs)

text \<open>The message of the proof-file rule of either form on a list: the tests in
  their order, the first that fails.\<close>

lemma proof_files_table:
  "run_tests (tests (proofFileSchema k path)) (Val xs) =
  (if k = Registration \<and> list_ex (\<lambda>x. \<not> instanceof_File x) xs then Some ''Not a file''
   else if list_ex (\<lambda>x. case x of File f \<Rightarrow> FILE_SIZE_LIMIT < file_size f
                         | Str r \<Rightarrow> False | Other sz ty \<Rightarrow> True) xs
   then Some ''File too large (max 2MB)''
   else if list_ex (\<lambda>x. case x of File f \<Rightarrow> file_type f \<notin> set GENERAL_SUPPORTED_FORMATS
                         | Str r \<Rightarrow> False | Other sz ty \<Rightarrow> True) xs
   then Some ''Unsupported file format (only JPG, JPEG, GIF, PNG, PDF, DOC, DOCX, TXT)''
   else None)"
proof (cases k)
  case Registration
  have a: "list_ex (\<lambda>x. \<not> instanceof_File x) xs = (\<not> list_all instanceof_File xs)"
    by (induction xs) auto
  have b: "list_all instanceof_File xs \<Longrightarrow>
      list_all (\<lambda>f. js_le (prop_size f) FILE_SIZE_LIMIT) xs
      = (\<not> list_ex (\<lambda>x. case x of File f \<Rightarrow> FILE_SIZE_LIMIT < file_size f
                       | Str r \<Rightarrow> False | Other sz ty \<Rightarrow> True) xs)"
    by (induction xs) (auto split: upload.splits)
  have c: "list_all instanceof_File xs \<Longrightarrow>
      list_all (\<lambda>f. js_includes GENERAL_SUPPORTED_FORMATS (prop_type f)) xs
      = (\<not> list_ex (\<lambda>x. case x of File f \<Rightarrow> file_type f \<notin> set GENERAL_SUPPORTED_FORMATS
                       | Str r \<Rightarrow> False | Other sz ty \<Rightarrow> True) xs)"
    by (induction xs) (auto split: upload.splits)
  show ?thesis
    unfolding a using b c Registration
    by (simp add: reg_proofFileSchema_def schema_defs)
next
  case Edit
  have b: "list_all (\<lambda>item. if instanceof_File item
                                       then js_le (prop_size item) FILE_SIZE_LIMIT
                                       else typeof_string item) xs
      = (\<not> list_ex (\<lambda>x. case x of File f \<Rightarrow> FILE_SIZE_LIMIT < file_size f
                       | Str r \<Rightarrow> False | Other sz ty \<Rightarrow> True) xs)"
    by (induction xs) (auto split: upload.splits)
  have c: "\<not> list_ex (\<lambda>x. case x of File f \<Rightarrow> FILE_SIZE_LIMIT < file_size f
                       | Str r \<Rightarrow> False | Other sz ty \<Rightarrow> True) xs \<Longrightarrow>
      list_all (\<lambda>item. if instanceof_File item
                                       then js_includes GENERAL_SUPPORTED_FORMATS (prop_type item)
                                       else typeof_string item) xs
      = (\<not> list_ex (\<lambda>x. case x of File f \<Rightarrow> file_type f \<notin> set GENERAL_SUPPORTED_FORMATS
                       | Str r \<Rightarrow> False | Other sz ty \<Rightarrow> True) xs)"
    by (induction xs) (auto split: upload.splits)
  show ?thesis
    unfolding b using c Edit
    by (simp add: edit_proofFileSchema_def schema_defs b)
qed

lemma proof_files_table_None:
  "((if k = Registration \<and> list_ex (\<lambda>x. \<not> instanceof_File x) xs then Some ''Not a file''
            else if list_ex (\<lambda>x. case x of File f \<Rightarrow> FILE_SIZE_LIMIT < file_size f
                                  | Str r \<Rightarrow> False | Other sz ty \<Rightarrow> True) xs
            then Some ''File too large (max 2MB)''
            else if list_ex (\<lambda>x. case x of File f \<Rightarrow> file_type f \<notin> set GENERAL_SUPPORTED_FORMATS
                                  | Str r \<Rightarrow> False | Other sz ty \<Rightarrow> True) xs
            then Some ''Unsupported file format (only JPG, JPEG, GIF, PNG, PDF, DOC, DOCX, TXT)''
            else None)
     = None)
   = list_all (\<lambda>x. case x of
               File f \<Rightarrow> file_size f \<le> FILE_SIZE_LIMIT
                         \<and> file_type f \<in> set GENERAL_SUPPORTED_FORMATS
             | Str r \<Rightarrow> k = Edit
             | Other sz ty \<Rightarrow> False) xs"
proof -
  have pt: "\<And>x. (case x of
               File f \<Rightarrow> file_size f \<le> FILE_SIZE_LIMIT
                         \<and> file_type f \<in> set GENERAL_SUPPORTED_FORMATS
             | Str r \<Rightarrow> k = Edit
             | Other sz ty \<Rightarrow> False)
       = (\<not> (k = Registration \<and> \<not> instanceof_File x)
          \<and> \<not> (case x of File f \<Rightarrow> FILE_SIZE_LIMIT < file_size f
                       | Str r \<Rightarrow> False | Other sz ty \<Rightarrow> True)
          \<and> \<not> (case x of File f \<Rightarrow> file_type f \<notin> set GENERAL_SUPPORTED_FORMATS
                       | Str r \<Rightarrow> False | Other sz ty \<Rightarrow> True))"
    subgoal for x by (cases x; cases k; auto)
    done
  show ?thesis
    unfolding list_ex_iff list_all_iff pt by auto
qed

lemma run_tests_append:
  "run_tests (ts @ us) v
      = (case run_tests ts v of None \<Rightarrow> run_tests us v | Some m \<Rightarrow> Some m)"
  by (induction ts) (auto split: outcome.splits)

lemma nationalIdProof_unfold:
  "validate_nationalIdProof (proofFileSchema k) fv =
    (case nationalIdProof fv of
       Null \<Rightarrow> if userType fv = Val ''pension'' then Some ''National ID Proof is required'' else None
     | Undefined \<Rightarrow> if userType fv = Val ''pension'' then Some ''National ID Proof is required'' else None
     | Val xs \<Rightarrow>
        (case run_tests (tests (proofFileSchema k ''nationalIdProof'')) (Val xs) of
           Some m \<Rightarrow> Some m
         | None \<Rightarrow> if xs \<noteq> [] \<and> userType fv \<noteq> Val ''pension''
                   then Some ''National ID Proof is only allowed for pensioners.'' else None))"
proof -
  have absent: "run_tests (tests (proofFileSchema k ''nationalIdProof'')) Null = None
      \<and> run_tests (tests (proofFileSchema k ''nationalIdProof'')) Undefined = None"
    by (cases k) (simp_all add: reg_proofFileSchema_def edit_proofFileSchema_def schema_defs)
  note sh = proof_files_shape [of k "''nationalIdProof''"]
  show ?thesis
    using absent sh
    by (cases "nationalIdProof fv")
      (simp_all add: validate_nationalIdProof_def nationalIdProofSchema_def schema_defs
        run_tests_append split: option.splits)
qed

text \<open>
  Claim C3, as amended. For the user type \<open>pension\<close> the rule of \<open>nationalIdProof\<close>
  refuses a missing value (\<open>null\<close> or \<open>undefined\<close>) with \<open>National ID Proof is
  required\<close>; to a non-empty list it gives the answer of the form's proof-file rule,
  so it accepts a non-empty list of valid files. For any other user type it accepts
  a missing value and the empty list, and refuses every non-empty list: with the
  message of the first file test that fails (\<open>Not a file\<close>, in the registration form
  only; \<open>File too large (max 2MB)\<close>; the message of the format test), and with
  \<open>National ID Proof is only allowed for pensioners.\<close> when the files are valid.
  The files of a list are valid, that is the file tests all pass, exactly when every
  item is a file within the limits or, in the edit form, a string reference.
\<close>

theorem C3_nationalIdProof:
  "(userType fv = Val ''pension'' \<longrightarrow>
      (nationalIdProof fv = Null \<or> nationalIdProof fv = Undefined \<longrightarrow>
         validate_nationalIdProof (proofFileSchema k) fv = Some ''National ID Proof is required'')
      \<and> (nationalIdProof fv = Val xs \<longrightarrow> xs \<noteq> [] \<longrightarrow>
           validate_nationalIdProof (proofFileSchema k) fv =
           (if k = Registration \<and> list_ex (\<lambda>x. \<not> instanceof_File x) xs then Some ''Not a file''
            else if list_ex (\<lambda>x. case x of File f \<Rightarrow> FILE_SIZE_LIMIT < file_size f
                                  | Str r \<Rightarrow> False | Other sz ty \<Rightarrow> True) xs
            then Some ''File too large (max 2MB)''
            else if list_ex (\<lambda>x. case x of File f \<Rightarrow> file_type f \<notin> set GENERAL_SUPPORTED_FORMATS
                                  | Str r \<Rightarrow> False | Other sz ty \<Rightarrow> True) xs
            then Some ''Unsupported file format (only JPG, JPEG, GIF, PNG, PDF, DOC, DOCX, TXT)''
            else None))
      \<and> (nationalIdProof fv = Val xs \<longrightarrow> xs \<noteq> [] \<longrightarrow>
           list_all (\<lambda>x. case x of
               File f \<Rightarrow> file_size f \<le> FILE_SIZE_LIMIT
                         \<and> file_type f \<in> set GENERAL_SUPPORTED_FORMATS
             | Str r \<Rightarrow> k = Edit
             | Other sz ty \<Rightarrow> False) xs \<longrightarrow>
           validate_nationalIdProof (proofFileSchema k) fv = None))
   \<and> (userType fv \<noteq> Val ''pension'' \<longrightarrow>
      (nationalIdProof fv = Null \<or> nationalIdProof fv = Undefined
         \<or> nationalIdProof fv = Val [] \<longrightarrow>
         validate_nationalIdProof (proofFileSchema k) fv = None)
      \<and> (nationalIdProof fv = Val xs \<longrightarrow> xs \<noteq> [] \<longrightarrow>
           validate_nationalIdProof (proofFileSchema k) fv \<noteq> None
           \<and> validate_nationalIdProof (proofFileSchema k) fv =
             (case
           (if k = Registration \<and> list_ex (\<lambda>x. \<not> instanceof_File x) xs then Some ''Not a file''
            else if list_ex (\<lambda>x. case x of File f \<Rightarrow> FILE_SIZE_LIMIT < file_size f
                                  | Str r \<Rightarrow> False | Other sz ty \<Rightarrow> True) xs
            then Some ''File too large (max 2MB)''
            else if list_ex (\<lambda>x. case x of File f \<Rightarrow> file_type f \<notin> set GENERAL_SUPPORTED_FORMATS
                                  | Str r \<Rightarrow> False | Other sz ty \<Rightarrow> True) xs
            then Some ''Unsupported file format (only JPG, JPEG, GIF, PNG, PDF, DOC, DOCX, TXT)''
            else None)
              of Some m \<Rightarrow> Some m
               | None \<Rightarrow> Some ''National ID Proof is only allowed for pensioners.'')
           \<and> (list_all (\<lambda>x. case x of
               File f \<Rightarrow> file_size f \<le> FILE_SIZE_LIMIT
                         \<and> file_type f \<in> set GENERAL_SUPPORTED_FORMATS
             | Str r \<Rightarrow> k = Edit
             | Other sz ty \<Rightarrow> False) xs \<longrightarrow>
              validate_nationalIdProof (proofFileSchema k) fv
                = Some ''National ID Proof is only allowed for pensioners.'')))
   \<and> (((if k = Registration \<and> list_ex (\<lambda>x. \<not> instanceof_File x) xs then Some ''Not a file''
            else if list_ex (\<lambda>x. case x of File f \<Rightarrow> FILE_SIZE_LIMIT < file_size f
                                  | Str r \<Rightarrow> False | Other sz ty \<Rightarrow> True) xs
            then Some ''File too large (max 2MB)''
            else if list_ex (\<lambda>x. case x of File f \<Rightarrow> file_type f \<notin> set GENERAL_SUPPORTED_FORMATS
                                  | Str r \<Rightarrow> False | Other sz ty \<Rightarrow> True) xs
            then Some ''Unsupported file format (only JPG, JPEG, GIF, PNG, PDF, DOC, DOCX, TXT)''
            else None)
        = None)
      = list_all (\<lambda>x. case x of
               File f \<Rightarrow> file_size f \<le> FILE_SIZE_LIMIT
                         \<and> file_type f \<in> set GENERAL_SUPPORTED_FORMATS
             | Str r \<Rightarrow> k = Edit
             | Other sz ty \<Rightarrow> False) xs)"
proof -
  define T where "T =
           (if k = Registration \<and> list_ex (\<lambda>x. \<not> instanceof_File x) xs then Some ''Not a file''
            else if list_ex (\<lambda>x. case x of File f \<Rightarrow> FILE_SIZE_LIMIT < file_size f
                                  | Str r \<Rightarrow> False | Other sz ty \<Rightarrow> True) xs
            then Some ''File too large (max 2MB)''
            else if list_ex (\<lambda>x. case x of File f \<Rightarrow> file_type f \<notin> set GENERAL_SUPPORTED_FORMATS
                                  | Str r \<Rightarrow> False | Other sz ty \<Rightarrow> True) xs
            then Some ''Unsupported file format (only JPG, JPEG, GIF, PNG, PDF, DOC, DOCX, TXT)''
            else None)"
  have r: "run_tests (tests (proofFileSchema k ''nationalIdProof'')) (Val xs) = T"
    unfolding T_def by (rule proof_files_table)
  have vi: "(T = None) =
           list_all (\<lambda>x. case x of
               File f \<Rightarrow> file_size f \<le> FILE_SIZE_LIMIT
                         \<and> file_type f \<in> set GENERAL_SUPPORTED_FORMATS
             | Str r \<Rightarrow> k = Edit
             | Other sz ty \<Rightarrow> False) xs"
    unfolding T_def by (rule proof_files_table_None)
  have e: "run_tests (tests (proofFileSchema k ''nationalIdProof'')) (Val []) = None"
    using proof_files_valid [of k "[]" "''nationalIdProof''"] by simp
  note u = nationalIdProof_unfold [of k fv]
  have main:
  "(userType fv = Val ''pension'' \<longrightarrow>
      (nationalIdProof fv = Null \<or> nationalIdProof fv = Undefined \<longrightarrow>
         validate_nationalIdProof (proofFileSchema k) fv = Some ''National ID Proof is required'')
      \<and> (nationalIdProof fv = Val xs \<longrightarrow> xs \<noteq> [] \<longrightarrow>
           validate_nationalIdProof (proofFileSchema k) fv =
           T)
      \<and> (nationalIdProof fv = Val xs \<longrightarrow> xs \<noteq> [] \<longrightarrow>
           list_all (\<lambda>x. case x of
               File f \<Rightarrow> file_size f \<le> FILE_SIZE_LIMIT
                         \<and> file_type f \<in> set GENERAL_SUPPORTED_FORMATS
             | Str r \<Rightarrow> k = Edit
             | Other sz ty \<Rightarrow> False) xs \<longrightarrow>
           validate_nationalIdProof (proofFileSchema k) fv = None))
   \<and> (userType fv \<noteq> Val ''pension'' \<longrightarrow>
      (nationalIdProof fv = Null \<or> nationalIdProof fv = Undefined
         \<or> nationalIdProof fv = Val [] \<longrightarrow>
         validate_nationalIdProof (proofFileSchema k) fv = None)
      \<and> (nationalIdProof fv = Val xs \<longrightarrow> xs \<noteq> [] \<longrightarrow>
           validate_nationalIdProof (proofFileSchema k) fv \<noteq> None
           \<and> validate_nationalIdProof (proofFileSchema k) fv =
             (case
           T
              of Some m \<Rightarrow> Some m
               | None \<Rightarrow> Some ''National ID Proof is only allowed for pensioners.'')
           \<and> (list_all (\<lambda>x. case x of
               File f \<Rightarrow> file_size f \<le> FILE_SIZE_LIMIT
                         \<and> file_type f \<in> set GENERAL_SUPPORTED_FORMATS
             | Str r \<Rightarrow> k = Edit
             | Other sz ty \<Rightarrow> False) xs \<longrightarrow>
              validate_nationalIdProof (proofFileSchema k) fv
                = Some ''National ID Proof is only allowed for pensioners.'')))
   \<and> ((T
        = None)
      = list_all (\<lambda>x. case x of
               File f \<Rightarrow> file_size f \<le> FILE_SIZE_LIMIT
                         \<and> file_type f \<in> set GENERAL_SUPPORTED_FORMATS
             | Str r \<Rightarrow> k = Edit
             | Other sz ty \<Rightarrow> False) xs)"
  proof (intro conjI impI)
    assume "userType fv = Val ''pension''" "nationalIdProof fv = Null \<or> nationalIdProof fv = Undefined"
    then show "validate_nationalIdProof (proofFileSchema k) fv = Some ''National ID Proof is required''"
      unfolding u by auto
  next
    assume "userType fv = Val ''pension''" "nationalIdProof fv = Val xs" "xs \<noteq> []"
    then show "validate_nationalIdProof (proofFileSchema k) fv = T"
      unfolding u using r by (simp split: option.splits)
  next
    assume "userType fv = Val ''pension''" "nationalIdProof fv = Val xs" "xs \<noteq> []"
      "list_all (\<lambda>x. case x of
               File f \<Rightarrow> file_size f \<le> FILE_SIZE_LIMIT
                         \<and> file_type f \<in> set GENERAL_SUPPORTED_FORMATS
             | Str r \<Rightarrow> k = Edit
             | Other sz ty \<Rightarrow> False) xs"
    then show "validate_nationalIdProof (proofFileSchema k) fv = None"
      unfolding u using r vi by (simp split: option.splits)
  next
    assume "userType fv \<noteq> Val ''pension''" "nationalIdProof fv = Null \<or> nationalIdProof fv = Undefined
         \<or> nationalIdProof fv = Val []"
    then show "validate_nationalIdProof (proofFileSchema k) fv = None"
      unfolding u using e by auto
  next
    assume "userType fv \<noteq> Val ''pension''" "nationalIdProof fv = Val xs" "xs \<noteq> []"
    then show "validate_nationalIdProof (proofFileSchema k) fv \<noteq> None"
      unfolding u by (simp split: option.splits)
  next
    assume "userType fv \<noteq> Val ''pension''" "nationalIdProof fv = Val xs" "xs \<noteq> []"
    then show "validate_nationalIdProof (proofFileSchema k) fv =
             (case T of Some m \<Rightarrow> Some m
               | None \<Rightarrow> Some ''National ID Proof is only allowed for pensioners.'')"
      unfolding u using r by (simp split: option.splits)
  next
    assume "userType fv \<noteq> Val ''pension''" "nationalIdProof fv = Val xs" "xs \<noteq> []"
      "list_all (\<lambda>x. case x of
               File f \<Rightarrow> file_size f \<le> FILE_SIZE_LIMIT
                         \<and> file_type f \<in> set GENERAL_SUPPORTED_FORMATS
             | Str r \<Rightarrow> k = Edit
             | Other sz ty \<Rightarrow> False) xs"
    then show "validate_nationalIdProof (proofFileSchema k) fv
                = Some ''National ID Proof is only allowed for pensioners.''"
      unfolding u using r vi by (simp split: option.splits)
  next
    show "(T = None) =
           list_all (\<lambda>x. case x of
               File f \<Rightarrow> file_size f \<le> FILE_SIZE_LIMIT
                         \<and> file_type f \<in> set GENERAL_SUPPORTED_FORMATS
             | Str r \<Rightarrow> k = Edit
             | Other sz ty \<Rightarrow> False) xs"
      by (rule vi)
  qed
  show ?thesis using main unfolding T_def .
qed

theorem C3_nationalIdProof_witness:
  "validate_nationalIdProof (proofFileSchema Registration)
      (sample_form (Val ''pension'') Null Undefined Null) = Some ''National ID Proof is required''
   \<and> validate_nationalIdProof (proofFileSchema Registration)
      (sample_form (Val ''pension'') Null Undefined
         (Val [File \<lparr>file_size = MB, file_type = ''application/pdf''\<rparr>])) = None
   \<and> validate_nationalIdProof (proofFileSchema Registration)
      (sample_form (Val ''pension'') Null Undefined
         (Val [File \<lparr>file_size = MB, file_type = ''image/bmp''\<rparr>]))
       = Some ''Unsupported file format (only JPG, JPEG, GIF, PNG, PDF, DOC, DOCX, TXT)''
   \<and> validate_nationalIdProof (proofFileSchema Registration)
      (sample_form (Val ''general'') Null Undefined (Val [])) = None
   \<and> validate_nationalIdProof (proofFileSchema Registration)
      (sample_form (Val ''general'') Null Undefined
         (Val [File \<lparr>file_size = 3 * MB, file_type = ''image/png''\<rparr>]))
       = Some ''File too large (max 2MB)''
   \<and> validate_nationalIdProof (proofFileSchema Registration)
      (sample_form (Val ''general'') Null Undefined (Val [Str ''proofs/id.pdf'']))
       = Some ''Not a file''
   \<and> validate_nationalIdProof (proofFileSchema Edit)
      (sample_form (Val ''student'') Null Undefined (Val [Str ''proofs/id.pdf'']))
       = Some ''National ID Proof is only allowed for pensioners.''"
proof -
  have a: "validate_nationalIdProof (proofFileSchema Registration)
      (sample_form (Val ''pension'') Null Undefined Null) = Some ''National ID Proof is required''"
    using C3_nationalIdProof [of "sample_form (Val ''pension'') Null Undefined Null" Registration]
    by (simp add: sample_form_def)
  have b: "validate_nationalIdProof (proofFileSchema Registration)
      (sample_form (Val ''pension'') Null Undefined
         (Val [File \<lparr>file_size = MB, file_type = ''application/pdf''\<rparr>])) = None"
    using C3_nationalIdProof [of "sample_form (Val ''pension'') Null Undefined
         (Val [File \<lparr>file_size = MB, file_type = ''application/pdf''\<rparr>])" Registration
         "[File \<lparr>file_size = MB, file_type = ''application/pdf''\<rparr>]"]
    by (simp add: sample_form_def FILE_SIZE_LIMIT_def MB_def GENERAL_SUPPORTED_FORMATS_def)
  have c: "validate_nationalIdProof (proofFileSchema Registration)
      (sample_form (Val ''general'') Null Undefined (Val [])) = None"
    using C3_nationalIdProof [of "sample_form (Val ''general'') Null Undefined (Val [])" Registration]
    by (simp add: sample_form_def)
  have d: "validate_nationalIdProof (proofFileSchema Registration)
      (sample_form (Val ''general'') Null Undefined
         (Val [File \<lparr>file_size = 3 * MB, file_type = ''image/png''\<rparr>]))
       = Some ''File too large (max 2MB)''"
    using C3_nationalIdProof [of "sample_form (Val ''general'') Null Undefined
         (Val [File \<lparr>file_size = 3 * MB, file_type = ''image/png''\<rparr>])" Registration
         "[File \<lparr>file_size = 3 * MB, file_type = ''image/png''\<rparr>]"]
    by (simp add: sample_form_def FILE_SIZE_LIMIT_def MB_def GENERAL_SUPPORTED_FORMATS_def)
  have e: "validate_nationalIdProof (proofFileSchema Registration)
      (sample_form (Val ''general'') Null Undefined (Val [Str ''proofs/id.pdf'']))
       = Some ''Not a file''"
    using C3_nationalIdProof [of "sample_form (Val ''general'') Null Undefined (Val [Str ''proofs/id.pdf''])"
         Registration "[Str ''proofs/id.pdf'']"]
    by (simp add: sample_form_def)
  have f: "validate_nationalIdProof (proofFileSchema Edit)
      (sample_form (Val ''student'') Null Undefined (Val [Str ''proofs/id.pdf'']))
       = Some ''National ID Proof is only allowed for pensioners.''"
    using C3_nationalIdProof [of "sample_form (Val ''student'') Null Undefined (Val [Str ''proofs/id.pdf''])"
         Edit "[Str ''proofs/id.pdf'']"]
    by (simp add: sample_form_def)
  have g: "validate_nationalIdProof (proofFileSchema Registration)
      (sample_form (Val ''pension'') Null Undefined
         (Val [File \<lparr>file_size = MB, file_type = ''image/bmp''\<rparr>]))
       = Some ''Unsupported file format (only JPG, JPEG, GIF, PNG, PDF, DOC, DOCX, TXT)''"
    using C3_nationalIdProof [of "sample_form (Val ''pension'') Null Undefined
         (Val [File \<lparr>file_size = MB, file_type = ''image/bmp''\<rparr>])" Registration
         "[File \<lparr>file_size = MB, file_type = ''image/bmp''\<rparr>]"]
    by (simp add: sample_form_def FILE_SIZE_LIMIT_def MB_def GENERAL_SUPPORTED_FORMATS_def)
  show ?thesis using a b c d e f g by blast
qed

text \<open>
  The claim as stated fails twice. A pensioner's empty list is accepted, although
  the claim has it refused; and for another user type a list with a file of 3 MB is
  refused with the message of the size test, not with the pensioners' message.
\<close>

theorem C3_empty_list_and_first_message:
  "validate_nationalIdProof (proofFileSchema Registration)
      (sample_form (Val ''pension'') Null Undefined (Val [])) = None
   \<and> validate_nationalIdProof (proofFileSchema Registration)
      (sample_form (Val ''general'') Null Undefined
         (Val [File \<lparr>file_size = 3 * MB, file_type = ''image/png''\<rparr>]))
       = Some ''File too large (max 2MB)''"
  by (simp add: validate_nationalIdProof_def nationalIdProofSchema_def reg_proofFileSchema_def
      schema_defs sample_form_def FILE_SIZE_LIMIT_def MB_def GENERAL_SUPPORTED_FORMATS_def)

section \<open>The school block\<close>









section \<open>Filling the edit form from a profile\<close>

text \<open>
  Claim C9, as amended. \<open>setDefaultValuesInEditForm\<close> copies each field of the
  profile that holds a non-empty value into the field of the form that corresponds
  to it (a date string through \<open>new Date\<close>, a stored reference as a string item).
  A field that is missing or holds the empty string gets its default: the empty
  string, or \<open>null\<close> for the picture, the dates and the proof lists; \<open>general\<close>
  for the user type; and the \<open>userEmail\<close> given by the caller for the email.
  \<open>full_name\<close> and \<open>user_name\<close> are copied as they are.
\<close>

theorem C9_setDefaultValuesInEditForm:
  "profilePic (setDefaultValuesInEditForm newDate p userEmail)
     = (case avatar_url p of Val s \<Rightarrow> if s = [] then Null else Val (Str s)
        | Null \<Rightarrow> Null | Undefined \<Rightarrow> Null)
   \<and> fullName (setDefaultValuesInEditForm newDate p userEmail) = full_name p
   \<and> username (setDefaultValuesInEditForm newDate p userEmail) = user_name p
   \<and> email (setDefaultValuesInEditForm newDate p userEmail)
     = (case email_p p of Val s \<Rightarrow> if s = [] then Val userEmail else Val s
        | Null \<Rightarrow> Val userEmail | Undefined \<Rightarrow> Val userEmail)
   \<and> address (setDefaultValuesInEditForm newDate p userEmail)
     = \<lparr> addressLine1 = (case address_line1 p of Val s \<Rightarrow> Val s | Null \<Rightarrow> Val [] | Undefined \<Rightarrow> Val []),
         addressLine2 = (case address_line2 p of Val s \<Rightarrow> Val s | Null \<Rightarrow> Val [] | Undefined \<Rightarrow> Val []),
         city = (case city_p p of Val s \<Rightarrow> Val s | Null \<Rightarrow> Val [] | Undefined \<Rightarrow> Val []),
         zipCode = (case zip_code p of Val s \<Rightarrow> Val s | Null \<Rightarrow> Val [] | Undefined \<Rightarrow> Val []) \<rparr>
   \<and> phone (setDefaultValuesInEditForm newDate p userEmail)
     = (case phone_number p of Val s \<Rightarrow> Val s | Null \<Rightarrow> Val [] | Undefined \<Rightarrow> Val [])
   \<and> userType (setDefaultValuesInEditForm newDate p userEmail)
     = (case user_type p of Val s \<Rightarrow> if s = [] then Val ''general'' else Val s
        | Null \<Rightarrow> Val ''general'' | Undefined \<Rightarrow> Val ''general'')
   \<and> dob (setDefaultValuesInEditForm newDate p userEmail)
     = (case date_of_birth p of Val s \<Rightarrow> if s = [] then Null else Val (newDate s)
        | Null \<Rightarrow> Null | Undefined \<Rightarrow> Null)
   \<and> nationalId (setDefaultValuesInEditForm newDate p userEmail)
     = (case national_id p of Val s \<Rightarrow> Val s | Null \<Rightarrow> Val [] | Undefined \<Rightarrow> Val [])
   \<and> school (setDefaultValuesInEditForm newDate p userEmail)
     = Val \<lparr> name = (case school_name p of Val s \<Rightarrow> Val s | Null \<Rightarrow> Val [] | Undefined \<Rightarrow> Val []),
             id' = (case school_id p of Val s \<Rightarrow> Val s | Null \<Rightarrow> Val [] | Undefined \<Rightarrow> Val []),
             proof' = (case student_proof_url p of Val xs \<Rightarrow> Val (map Str xs)
                       | Null \<Rightarrow> Null | Undefined \<Rightarrow> Null),
             expiry = (case school_expiry p of Val s \<Rightarrow> if s = [] then Null else Val (newDate s)
                       | Null \<Rightarrow> Null | Undefined \<Rightarrow> Null) \<rparr>
   \<and> nationalIdProof (setDefaultValuesInEditForm newDate p userEmail)
     = (case national_id_proof_url p of Val xs \<Rightarrow> Val (map Str xs)
        | Null \<Rightarrow> Null | Undefined \<Rightarrow> Null)"
  by (intro conjI; simp add: setDefaultValuesInEditForm_def or_str_def or_obj_def split: js.splits)

text \<open>
  The claim as stated fails: the stored picture reference of \<open>sample_profile\<close> is
  present and is the empty string, and the form gets \<open>null\<close>; its email is missing,
  and the form gets the caller's \<open>userEmail\<close>, neither the empty string nor
  \<open>null\<close>.
\<close>

theorem C9_empty_and_email_defaults:
  "avatar_url sample_profile = Val []
   \<and> profilePic (setDefaultValuesInEditForm (\<lambda>s. InvalidDate) sample_profile ''jane@x.com'') = Null
   \<and> email_p sample_profile = Null
   \<and> email (setDefaultValuesInEditForm (\<lambda>s. InvalidDate) sample_profile ''jane@x.com'')
       = Val ''jane@x.com''"
  by (simp add: setDefaultValuesInEditForm_def or_str_def sample_profile_def)


end
